theory Spec2Isabelle
  imports Complex_Main
begin

section \<open>Hotel Emojis: the session, spawn and timing engine of the \<open>App\<close> component\<close>

text \<open>
  The component keeps its session in React state cells and refs. Here the cells and refs are
  the fields of one record, every event handler, effect and interval callback is a function
  from the session to the next session, and what the source reads from the environment is a
  parameter: \<open>now\<close> is the value of \<open>Date.now()\<close> (milliseconds, an integer) and each
  \<open>u\<close> is one value of \<open>Math.random()\<close>, a fraction in \<open>[0, 1)\<close>. Scores and timestamps
  are JavaScript numbers holding integers; they are \<open>int\<close> here. A glyph is the list of its
  Unicode code points.
\<close>

subsection \<open>Data model\<close>

datatype EmojiKind = Good | Bad | Bomb

datatype Theme = Day | Night

datatype View = Welcome | Instructions | Game

type_synonym glyph = "nat list"

record Spawnable =
  kind :: EmojiKind
  emoji :: glyph
  points :: int

record DoorItem =
  emoji :: glyph
  points :: int

record DoorDrop =
  emoji :: glyph
  points :: int
  expiresAt :: int

record WindowCell =
  id' :: nat
  active :: "Spawnable option"
  expiresAt :: int

text \<open>
  The state cells of \<open>App\<close> (\<open>view\<close>, \<open>grid\<close>, \<open>points\<close>, \<open>gameOver\<close>, \<open>doorDrop\<close>,
  \<open>doorMilestonesAwarded\<close>, \<open>elapsedSeconds\<close>, \<open>runKey\<close>) and its two clock refs
  (\<open>startedAtRef.current\<close>, \<open>pausedAtRef.current\<close>).
\<close>

record Session =
  view :: View
  grid :: "WindowCell list"
  points :: int
  gameOver :: bool
  doorDrop :: "DoorDrop option"
  doorMilestonesAwarded :: int
  elapsedSeconds :: int
  runKey :: int
  startedAt :: int
  pausedAt :: "int option"

subsection \<open>Constants and catalogs\<close>

definition COLS :: nat where "COLS = 2"
definition ROWS :: nat where "ROWS = 5"
definition CELL_COUNT :: nat where "CELL_COUNT = COLS * ROWS"

definition TTL_MIN_MS :: int where "TTL_MIN_MS = 3000"
definition TTL_MAX_MS :: int where "TTL_MAX_MS = 6000"

definition DOOR_ITEMS :: "DoorItem list" where
  "DOOR_ITEMS =
    [\<lparr>DoorItem.emoji = [0x1F381], points = 10\<rparr>,
     \<lparr>DoorItem.emoji = [0x1FA99], points = 15\<rparr>,
     \<lparr>DoorItem.emoji = [0x1F511], points = 8\<rparr>,
     \<lparr>DoorItem.emoji = [0x2744, 0xFE0F], points = - 12\<rparr>,
     \<lparr>DoorItem.emoji = [0x2764, 0xFE0F, 0x200D, 0x1FA79], points = - 10\<rparr>]"

definition SPAWNABLES :: "Spawnable list" where
  "SPAWNABLES =
    [\<lparr>kind = Good, emoji = [0x1F48E], points = 5\<rparr>,
     \<lparr>kind = Good, emoji = [0x1F340], points = 3\<rparr>,
     \<lparr>kind = Good, emoji = [0x2B50, 0xFE0F], points = 2\<rparr>,
     \<lparr>kind = Good, emoji = [0x2764, 0xFE0F], points = 1\<rparr>,
     \<lparr>kind = Bad, emoji = [0x1F480], points = - 2\<rparr>,
     \<lparr>kind = Bad, emoji = [0x1F62D], points = - 4\<rparr>,
     \<lparr>kind = Bad, emoji = [0x1F525], points = - 1\<rparr>,
     \<lparr>kind = Bomb, emoji = [0x1F4A3], points = 0\<rparr>]"

subsection \<open>Pure helpers\<close>

definition themedPoints :: "int \<Rightarrow> Theme \<Rightarrow> int" where
  "themedPoints p th = (if th = Night then - p else p)"

definition windowDelta :: "Spawnable \<Rightarrow> Theme \<Rightarrow> int" where
  "windowDelta item th =
     (if kind item = Bomb then 0 else themedPoints (Spawnable.points item) th)"

text \<open>
  \<open>randomInt(maxExclusive) = Math.floor(Math.random() * maxExclusive)\<close>, with the value of
  \<open>Math.random()\<close> passed in. The product is the exact one here; the source floors the
  product rounded to a double, which for some draws is the next integer. Both stay below
  \<open>maxExclusive\<close> for the bounds the source uses, and nothing proved below depends on
  which index or time to live is drawn.
\<close>

definition randomInt :: "rat \<Rightarrow> int \<Rightarrow> int" where
  "randomInt u maxExclusive = \<lfloor>u * of_int maxExclusive\<rfloor>"

definition randomIntRange :: "rat \<Rightarrow> int \<Rightarrow> int \<Rightarrow> int" where
  "randomIntRange u minInclusive maxInclusive =
     minInclusive + randomInt u (maxInclusive - minInclusive + 1)"

definition createInitialGrid :: "WindowCell list" where
  "createInitialGrid =
     map (\<lambda>i. \<lparr>id' = i, active = None, expiresAt = 0\<rparr>) [0..<CELL_COUNT]"

definition pickDoorItem :: "rat \<Rightarrow> DoorItem" where
  "pickDoorItem u = DOOR_ITEMS ! nat (randomInt u (int (length DOOR_ITEMS)))"

text \<open>
  JavaScript's \<open>%\<close> takes the sign of the dividend; \<open>Math.floor\<close> of a quotient of integers
  is \<open>div\<close>.
\<close>

definition js_rem :: "int \<Rightarrow> int \<Rightarrow> int" where
  "js_rem a b = sgn a * (\<bar>a\<bar> mod \<bar>b\<bar>)"

definition theme :: "int \<Rightarrow> Theme" where
  "theme secs = (if js_rem ((secs + 5) div 60) 2 = 0 then Day else Night)"

definition isThemeTransitionWindow :: "int \<Rightarrow> bool" where
  "isThemeTransitionWindow secs = (js_rem secs 60 \<ge> 55)"

definition doorMilestones :: "int \<Rightarrow> int" where
  "doorMilestones pts = pts div 50"

subsection \<open>The grid: spawn and cleanup intervals\<close>

text \<open>
  The spawn interval's \<open>setGrid\<close> updater. The \<open>for\<close> loop collects, in order, the indices of
  the cells with no occupant or with \<open>expiresAt <= now\<close>; one of them is drawn with \<open>u1\<close>,
  a catalog item with \<open>u2\<close> and a time to live with \<open>u3\<close>.
\<close>

definition emptyIndices :: "int \<Rightarrow> WindowCell list \<Rightarrow> nat list" where
  "emptyIndices now prev =
     filter (\<lambda>i. active (prev ! i) = None \<or> WindowCell.expiresAt (prev ! i) \<le> now)
       [0..<length prev]"

definition spawn :: "int \<Rightarrow> rat \<Rightarrow> rat \<Rightarrow> rat \<Rightarrow> WindowCell list \<Rightarrow> WindowCell list" where
  "spawn now u1 u2 u3 prev =
     (let empties = emptyIndices now prev in
      if length empties = 0 then prev
      else
        let targetIndex = empties ! nat (randomInt u1 (int (length empties)));
            spawnable = SPAWNABLES ! nat (randomInt u2 (int (length SPAWNABLES)))
        in prev[targetIndex := (prev ! targetIndex)
             \<lparr>active := Some spawnable,
              WindowCell.expiresAt := now + randomIntRange u3 TTL_MIN_MS TTL_MAX_MS\<rparr>])"

text \<open>The cleanup interval: its \<open>setDoorDrop\<close> updater and its \<open>setGrid\<close> updater.\<close>

definition cleanupDoor :: "int \<Rightarrow> DoorDrop option \<Rightarrow> DoorDrop option" where
  "cleanupDoor now prev =
     (case prev of
        None \<Rightarrow> prev
      | Some d \<Rightarrow> if DoorDrop.expiresAt d \<le> now then None else prev)"

definition cleanupGrid :: "int \<Rightarrow> WindowCell list \<Rightarrow> WindowCell list" where
  "cleanupGrid now prev =
     (let changed = list_ex (\<lambda>cell. active cell \<noteq> None \<and> WindowCell.expiresAt cell \<le> now) prev;
          next = map (\<lambda>cell.
                   if active cell \<noteq> None \<and> WindowCell.expiresAt cell \<le> now
                   then cell\<lparr>active := None, WindowCell.expiresAt := 0\<rparr>
                   else cell) prev
      in if changed then next else prev)"

subsection \<open>Effects\<close>

text \<open>
  The effect on \<open>[view, elapsedSeconds]\<close>: it marks the pause when the view is not the game,
  and on return shifts the start reference and, after a pause of positive length, every
  outstanding expiry. The reads of \<open>Date.now()\<close> within one run are the same instant.
\<close>

definition shiftDoor :: "int \<Rightarrow> DoorDrop option \<Rightarrow> DoorDrop option" where
  "shiftDoor delta prev =
     (case prev of
        None \<Rightarrow> prev
      | Some d \<Rightarrow> Some (d\<lparr>DoorDrop.expiresAt := DoorDrop.expiresAt d + delta\<rparr>))"

definition shiftGrid :: "int \<Rightarrow> WindowCell list \<Rightarrow> WindowCell list" where
  "shiftGrid delta prev =
     map (\<lambda>cell.
        if active cell \<noteq> None
        then cell\<lparr>WindowCell.expiresAt := WindowCell.expiresAt cell + delta\<rparr>
        else cell) prev"

definition pauseResumeEffect :: "int \<Rightarrow> Session \<Rightarrow> Session" where
  "pauseResumeEffect now s =
     (if view s \<noteq> Game then
        (if pausedAt s = None then s\<lparr>pausedAt := Some now\<rparr> else s)
      else
        case pausedAt s of
          None \<Rightarrow> s\<lparr>startedAt := now - elapsedSeconds s * 1000\<rparr>
        | Some p \<Rightarrow>
            let delta = now - p;
                s1 = s\<lparr>pausedAt := None, startedAt := now - elapsedSeconds s * 1000\<rparr>
            in if delta > 0
               then s1\<lparr>doorDrop := shiftDoor delta (doorDrop s1),
                       grid := shiftGrid delta (grid s1)\<rparr>
               else s1)"

text \<open>
  The milestone effect on \<open>[doorMilestones, doorMilestonesAwarded, gameOver, view]\<close>; \<open>u1\<close>
  draws the door item and \<open>u2\<close> its time to live.
\<close>

definition milestoneEffect :: "int \<Rightarrow> rat \<Rightarrow> rat \<Rightarrow> Session \<Rightarrow> Session" where
  "milestoneEffect now u1 u2 s =
     (if view s \<noteq> Game then s
      else if gameOver s then s
      else if doorMilestones (points s) \<le> 0 then s
      else if doorMilestones (points s) \<le> doorMilestonesAwarded s then s
      else
        let item = pickDoorItem u1 in
        s\<lparr>doorMilestonesAwarded := doorMilestones (points s),
          doorDrop := Some \<lparr>DoorDrop.emoji = DoorItem.emoji item,
                            points = DoorItem.points item,
                            expiresAt = now + randomIntRange u2 TTL_MIN_MS TTL_MAX_MS\<rparr>\<rparr>)"

text \<open>The effect on \<open>[runKey]\<close>, and the 250 ms interval that refreshes the elapsed seconds.\<close>

definition runKeyEffect :: "int \<Rightarrow> Session \<Rightarrow> Session" where
  "runKeyEffect now s = s\<lparr>startedAt := now, elapsedSeconds := 0\<rparr>"

definition timerTick :: "int \<Rightarrow> Session \<Rightarrow> Session" where
  "timerTick now s = s\<lparr>elapsedSeconds := (now - startedAt s) div 1000\<rparr>"

subsection \<open>Event handlers\<close>

text \<open>
  \<open>setView\<close>, as called by the buttons that leave the game view (\<open>openInstructions\<close>) and
  return to it (\<open>Back to Game\<close>, \<open>startGame\<close>); the effect on \<open>[view, elapsedSeconds]\<close>
  runs after it.
\<close>

definition setView :: "View \<Rightarrow> Session \<Rightarrow> Session" where
  "setView v s = s\<lparr>view := v\<rparr>"

text \<open>
  \<open>onClickWindow\<close>: the guards, then the \<open>setGrid\<close> updater with the \<open>setGameOver\<close> and
  \<open>setPoints\<close> calls it makes. \<open>prev[id]\<close> of an index past the end is \<open>undefined\<close>, and the
  updater returns \<open>prev\<close>. The particle effect is presentation only and left out. The theme is
  the one derived from the elapsed seconds of the render the handler belongs to.
\<close>

definition onClickWindow :: "nat \<Rightarrow> Session \<Rightarrow> Session" where
  "onClickWindow i s =
     (if gameOver s then s
      else if view s \<noteq> Game then s
      else
        let prev = grid s in
        if \<not> i < length prev then s
        else
          case active (prev ! i) of
            None \<Rightarrow> s
          | Some picked \<Rightarrow>
              if kind picked = Bomb
              then s\<lparr>gameOver := True,
                     grid := map (\<lambda>c. if id' c = i
                                       then c\<lparr>active := None, WindowCell.expiresAt := 0\<rparr>
                                       else c) prev\<rparr>
              else s\<lparr>points := points s + windowDelta picked (theme (elapsedSeconds s)),
                     grid := prev[i := (prev ! i)\<lparr>active := None, WindowCell.expiresAt := 0\<rparr>]\<rparr>)"

text \<open>\<open>restart\<close>: the state writes of the handler; the bump of \<open>runKey\<close> triggers \<open>runKeyEffect\<close>.\<close>

definition restart :: "Session \<Rightarrow> Session" where
  "restart s =
     s\<lparr>points := 0, gameOver := False, doorDrop := None, doorMilestonesAwarded := 0,
       grid := createInitialGrid, runKey := runKey s + 1\<rparr>"

definition restartRun :: "int \<Rightarrow> Session \<Rightarrow> Session" where
  "restartRun now s = runKeyEffect now (restart s)"

text \<open>\<open>onClickDoor\<close>: the guards, then the \<open>setDoorDrop\<close> updater.\<close>

definition onClickDoor :: "int \<Rightarrow> Session \<Rightarrow> Session" where
  "onClickDoor now s =
     (if gameOver s then s
      else if view s \<noteq> Game then s
      else
        case doorDrop s of
          None \<Rightarrow> s
        | Some prev \<Rightarrow>
            if DoorDrop.expiresAt prev \<le> now then s\<lparr>doorDrop := None\<rparr>
            else s\<lparr>points := points s + themedPoints (DoorDrop.points prev) (theme (elapsedSeconds s)),
                   doorDrop := None\<rparr>)"

subsection \<open>Invariants and measures of the grid\<close>

text \<open>
  \<open>createInitialGrid\<close> numbers the cells by their index and no operation changes a cell's
  \<open>id\<close>; the bomb branch of \<open>onClickWindow\<close> finds the clicked cell by \<open>id\<close>, the other
  branch by index.
\<close>

definition idsInOrder :: "WindowCell list \<Rightarrow> bool" where
  "idsInOrder g = (map id' g = [0..<length g])"

definition occupied :: "WindowCell list \<Rightarrow> nat" where
  "occupied g = length (filter (\<lambda>c. active c \<noteq> None) g)"

definition emptySlotsReset :: "WindowCell list \<Rightarrow> bool" where
  "emptySlotsReset g = list_all (\<lambda>c. active c = None \<longrightarrow> WindowCell.expiresAt c = 0) g"

subsection \<open>Example sessions\<close>

text \<open>
  A grid eight seconds into a run: a clover in window 0 until 12000 ms, a bomb in window 1
  until 9000 ms, and a key at the door until 13000 ms.
\<close>

definition busyGrid :: "WindowCell list" where
  "busyGrid = createInitialGrid
     [0 := \<lparr>id' = 0, active = Some \<lparr>kind = Good, emoji = [0x1F340], points = 3\<rparr>,
            expiresAt = 12000\<rparr>,
      1 := \<lparr>id' = 1, active = Some \<lparr>kind = Bomb, emoji = [0x1F4A3], points = 0\<rparr>,
            expiresAt = 9000\<rparr>]"

definition busySession :: Session where
  "busySession =
     \<lparr>view = Game, grid = busyGrid, points = 53, gameOver = False,
      doorDrop = Some \<lparr>DoorDrop.emoji = [0x1F511], points = 8, expiresAt = 13000\<rparr>,
      doorMilestonesAwarded = 1, elapsedSeconds = 8, runKey = 1, startedAt = 0,
      pausedAt = None\<rparr>"

text \<open>
  A gem spawned by the tick at 1000 ms with the shortest time to live, so that it expires at
  4000 ms; the cleanup interval, 150 ms apart, has not run since.
\<close>

definition expiredWindowSession :: Session where
  "expiredWindowSession =
     \<lparr>view = Game,
      grid = createInitialGrid
        [0 := \<lparr>id' = 0, active = Some \<lparr>kind = Good, emoji = [0x1F48E], points = 5\<rparr>,
               expiresAt = 4000\<rparr>],
      points = 0, gameOver = False, doorDrop = None, doorMilestonesAwarded = 0,
      elapsedSeconds = 4, runKey = 1, startedAt = 0, pausedAt = None\<rparr>"

text \<open>A gift at the door that expired at 34000 ms and has not been swept yet.\<close>

definition expiredDoorSession :: Session where
  "expiredDoorSession =
     \<lparr>view = Game, grid = createInitialGrid, points = 50, gameOver = False,
      doorDrop = Some \<lparr>DoorDrop.emoji = [0x1F381], points = 10, expiresAt = 34000\<rparr>,
      doorMilestonesAwarded = 1, elapsedSeconds = 34, runKey = 1, startedAt = 0,
      pausedAt = None\<rparr>"


section \<open>Properties\<close>

subsection \<open>The initial grid and the examples, cell by cell\<close>

lemma upt_0_10: "[0..<10] = [0, 1, 2, 3, 4, 5, 6, 7, 8, 9::nat]"
  by (simp add: upt_rec)

lemma length_createInitialGrid: "length createInitialGrid = 10"
  by (simp add: createInitialGrid_def CELL_COUNT_def COLS_def ROWS_def)

lemma active_createInitialGrid:
  "map active createInitialGrid = replicate (length createInitialGrid) None"
  by (simp add: createInitialGrid_def map_replicate_const o_def)

lemma createInitialGrid_cells:
  "createInitialGrid =
     [\<lparr>id' = 0, active = None, expiresAt = 0\<rparr>, \<lparr>id' = 1, active = None, expiresAt = 0\<rparr>,
      \<lparr>id' = 2, active = None, expiresAt = 0\<rparr>, \<lparr>id' = 3, active = None, expiresAt = 0\<rparr>,
      \<lparr>id' = 4, active = None, expiresAt = 0\<rparr>, \<lparr>id' = 5, active = None, expiresAt = 0\<rparr>,
      \<lparr>id' = 6, active = None, expiresAt = 0\<rparr>, \<lparr>id' = 7, active = None, expiresAt = 0\<rparr>,
      \<lparr>id' = 8, active = None, expiresAt = 0\<rparr>, \<lparr>id' = 9, active = None, expiresAt = 0\<rparr>]"
  by (simp add: createInitialGrid_def CELL_COUNT_def COLS_def ROWS_def upt_0_10)

lemma busyGrid_cells:
  "busyGrid =
     [\<lparr>id' = 0, active = Some \<lparr>kind = Good, emoji = [0x1F340], points = 3\<rparr>, expiresAt = 12000\<rparr>,
      \<lparr>id' = 1, active = Some \<lparr>kind = Bomb, emoji = [0x1F4A3], points = 0\<rparr>, expiresAt = 9000\<rparr>,
      \<lparr>id' = 2, active = None, expiresAt = 0\<rparr>, \<lparr>id' = 3, active = None, expiresAt = 0\<rparr>,
      \<lparr>id' = 4, active = None, expiresAt = 0\<rparr>, \<lparr>id' = 5, active = None, expiresAt = 0\<rparr>,
      \<lparr>id' = 6, active = None, expiresAt = 0\<rparr>, \<lparr>id' = 7, active = None, expiresAt = 0\<rparr>,
      \<lparr>id' = 8, active = None, expiresAt = 0\<rparr>, \<lparr>id' = 9, active = None, expiresAt = 0\<rparr>]"
  by (simp add: busyGrid_def createInitialGrid_cells)

subsection \<open>The spawn updater, case by case\<close>

lemma randomInt_range:
  assumes "0 \<le> u" and "u < 1" and "0 < n"
  shows "0 \<le> randomInt u n \<and> randomInt u n < n"
proof -
  have "0 \<le> u * of_int n" using assms by simp
  moreover have "u * of_int n < of_int n" using assms by simp
  ultimately show ?thesis unfolding randomInt_def by (simp add: floor_less_iff)
qed

lemma target_in_empties:
  assumes "0 \<le> u" and "u < 1" and "xs \<noteq> []"
  shows "xs ! nat (randomInt u (int (length xs))) \<in> set xs"
proof -
  have "0 < int (length xs)" using assms(3) by simp
  from randomInt_range [OF assms(1,2) this]
  have "nat (randomInt u (int (length xs))) < length xs" by (simp add: nat_less_iff)
  then show ?thesis by (rule nth_mem)
qed

lemma emptyIndices_mem:
  "i \<in> set (emptyIndices now g) \<longleftrightarrow>
     i < length g \<and> (active (g ! i) = None \<or> WindowCell.expiresAt (g ! i) \<le> now)"
  by (auto simp: emptyIndices_def)

lemma spawn_no_empties: "emptyIndices now g = [] \<Longrightarrow> spawn now u1 u2 u3 g = g"
  by (simp add: spawn_def)

lemma spawn_some_empty:
  "emptyIndices now g \<noteq> [] \<Longrightarrow>
     spawn now u1 u2 u3 g =
       g[emptyIndices now g ! nat (randomInt u1 (int (length (emptyIndices now g)))) :=
           (g ! (emptyIndices now g ! nat (randomInt u1 (int (length (emptyIndices now g))))))
             \<lparr>active := Some (SPAWNABLES ! nat (randomInt u2 (int (length SPAWNABLES)))),
              WindowCell.expiresAt := now + randomIntRange u3 TTL_MIN_MS TTL_MAX_MS\<rparr>]"
  by (simp add: spawn_def Let_def)

lemma filter_update_le:
  "length (filter P (xs[i := y])) \<le> length (filter P xs) + 1"
proof (induction xs arbitrary: i)
  case Nil
  then show ?case by simp
next
  case (Cons x xs)
  show ?case
  proof (cases i)
    case 0
    then show ?thesis by simp
  next
    case (Suc j)
    with Cons.IH [of j] show ?thesis by simp
  qed
qed

lemma emptyIndices_busyGrid: "emptyIndices 10000 busyGrid = [1, 2, 3, 4, 5, 6, 7, 8, 9]"
  by (simp add: emptyIndices_def busyGrid_cells upt_0_10)

lemma spawn_busyGrid:
  "spawn 10000 0 0 0 busyGrid =
     busyGrid[1 := \<lparr>id' = 1, active = Some \<lparr>kind = Good, emoji = [0x1F48E], points = 5\<rparr>,
                   expiresAt = 13000\<rparr>]"
  by (simp add: spawn_def emptyIndices_busyGrid randomInt_def randomIntRange_def TTL_MIN_MS_def
      SPAWNABLES_def) (simp add: busyGrid_cells)

subsection \<open>Cell ids stay in index order\<close>

lemma idsInOrder_nth: "idsInOrder g \<Longrightarrow> i < length g \<Longrightarrow> id' (g ! i) = i"
  unfolding idsInOrder_def by (metis nth_map nth_upt add_0)

lemma idsInOrder_createInitialGrid: "idsInOrder createInitialGrid"
  by (simp add: idsInOrder_def createInitialGrid_def o_def)

lemma idsInOrder_update:
  "idsInOrder g \<Longrightarrow> id' c = id' (g ! k) \<Longrightarrow> idsInOrder (g[k := c])"
  unfolding idsInOrder_def
  by (simp add: map_update)
     (metis list_update_id length_map nth_map list_update_beyond not_le)

lemma idsInOrder_map:
  "idsInOrder g \<Longrightarrow> (\<And>c. id' (f c) = id' c) \<Longrightarrow> idsInOrder (map f g)"
  unfolding idsInOrder_def by (simp add: o_def)

lemma idsInOrder_spawn: "idsInOrder g \<Longrightarrow> idsInOrder (spawn now u1 u2 u3 g)"
  by (cases "emptyIndices now g = []")
     (simp_all add: spawn_no_empties spawn_some_empty idsInOrder_update)

lemma idsInOrder_cleanupGrid: "idsInOrder g \<Longrightarrow> idsInOrder (cleanupGrid now g)"
  by (simp add: cleanupGrid_def Let_def idsInOrder_map)

lemma idsInOrder_shiftGrid: "idsInOrder g \<Longrightarrow> idsInOrder (shiftGrid d g)"
  by (simp add: shiftGrid_def idsInOrder_map)

lemma idsInOrder_onClickWindow:
  "idsInOrder (grid s) \<Longrightarrow> idsInOrder (grid (onClickWindow i s))"
  by (simp add: onClickWindow_def Let_def idsInOrder_map idsInOrder_update split: option.split)

lemma idsInOrder_pauseResumeEffect:
  "idsInOrder (grid s) \<Longrightarrow> idsInOrder (grid (pauseResumeEffect now s))"
  by (simp add: pauseResumeEffect_def Let_def idsInOrder_shiftGrid split: option.split)

lemma idsInOrder_restart: "idsInOrder (grid (restartRun now s))"
  by (simp add: restartRun_def restart_def runKeyEffect_def idsInOrder_createInitialGrid)

lemma idsInOrder_busyGrid: "idsInOrder busyGrid"
  by (simp add: idsInOrder_def busyGrid_cells upt_0_10)

lemma idsInOrder_clear_by_id:
  assumes "idsInOrder g" and "i < length g"
  shows "map (\<lambda>c. if id' c = i then f c else c) g = g[i := f (g ! i)]"
proof (rule nth_equalityI)
  show "length (map (\<lambda>c. if id' c = i then f c else c) g) = length (g[i := f (g ! i)])"
    by simp
next
  fix j assume "j < length (map (\<lambda>c. if id' c = i then f c else c) g)"
  then have j: "j < length g" by simp
  with assms(1) have "id' (g ! j) = j" by (rule idsInOrder_nth)
  with j show "map (\<lambda>c. if id' c = i then f c else c) g ! j = g[i := f (g ! i)] ! j"
    by (cases "j = i") simp_all
qed

subsection \<open>The clock: theme and restart\<close>

lemma js_rem_2_eq_0: "js_rem a 2 = 0 \<longleftrightarrow> a mod 2 = 0"
proof (cases "a = 0")
  case True
  then show ?thesis by (simp add: js_rem_def)
next
  case False
  have "\<bar>a\<bar> mod 2 = 0 \<longleftrightarrow> a mod 2 = 0"
    by (simp add: abs_if flip: even_iff_mod_2_eq_zero)
  with False show ?thesis by (simp add: js_rem_def sgn_if)
qed

lemma theme_Day_iff: "theme t = Day \<longleftrightarrow> ((t + 5) div 60) mod 2 = 0"
  by (simp add: theme_def js_rem_2_eq_0)

text \<open>
  Claim C8. The theme derived from the elapsed seconds \<open>t\<close> is day exactly when
  \<open>floor((t + 5) / 60) mod 2\<close> is 0, and the theme at \<open>t + 120\<close> is the theme at \<open>t\<close>.
  It is proved for every integer \<open>t\<close>, so for every natural number; the zero test of
  JavaScript's remainder and of \<open>mod\<close> agree on negative numbers too.
\<close>

theorem theme_day_iff_and_period:
  "(theme t = Day \<longleftrightarrow> ((t + 5) div 60) mod 2 = 0) \<and> theme (t + 120) = theme t"
proof
  show "theme t = Day \<longleftrightarrow> ((t + 5) div 60) mod 2 = 0" by (rule theme_Day_iff)
next
  have "(t + 120 + 5) div 60 = (t + 5) div 60 + 2" by simp
  then have "js_rem ((t + 120 + 5) div 60) 2 = 0 \<longleftrightarrow> js_rem ((t + 5) div 60) 2 = 0"
    by (simp only: js_rem_2_eq_0) simp
  then show "theme (t + 120) = theme t"
    unfolding theme_def by simp
qed

text \<open>
  Claim C9. \<open>restart()\<close>, with the effect its bump of \<open>runKey\<close> triggers, resets the session:
  the score is 0, \<open>gameOver\<close> is false, the door drop is none, \<open>doorMilestonesAwarded\<close> is 0,
  the grid is the initial grid, whose ten windows are all empty, the elapsed seconds are 0
  and the start reference is the current time.
\<close>

theorem restart_resets_session:
  "points (restartRun now s) = 0 \<and>
   gameOver (restartRun now s) = False \<and>
   doorDrop (restartRun now s) = None \<and>
   doorMilestonesAwarded (restartRun now s) = 0 \<and>
   grid (restartRun now s) = createInitialGrid \<and>
   map active (grid (restartRun now s)) = replicate 10 None \<and>
   elapsedSeconds (restartRun now s) = 0 \<and>
   startedAt (restartRun now s) = now"
  using active_createInitialGrid
  by (simp add: restartRun_def restart_def runKeyEffect_def length_createInitialGrid)

subsection \<open>Window clicks\<close>

lemma window_click_absent_noop:
  "i < length (grid s) \<Longrightarrow> active (grid s ! i) = None \<Longrightarrow> onClickWindow i s = s"
  by (simp add: onClickWindow_def Let_def)

lemma window_click_inactive_noop:
  "gameOver s \<or> view s \<noteq> Game \<Longrightarrow> onClickWindow i s = s"
  by (auto simp: onClickWindow_def)

lemma createInitialGrid_nonempty: "createInitialGrid \<noteq> []"
  using length_createInitialGrid by auto

text \<open>
  Claim C1 says that a window click on a slot whose occupant is absent, or present with an
  \<open>expiresAt\<close> that has passed at click time, changes nothing. For an absent occupant that
  is \<open>window_click_absent_noop\<close>. For an expired occupant that the cleanup interval has not
  swept yet it fails: \<open>onClickWindow\<close> never reads the clock or \<open>expiresAt\<close>. The gem of
  \<open>expiredWindowSession\<close> expired at 4000 ms; a click at 4020 ms still scores its 5 points
  and clears the window.
\<close>

theorem window_click_expired_unswept_scores:
  "WindowCell.expiresAt (grid expiredWindowSession ! 0) \<le> 4020 \<and>
   active (grid expiredWindowSession ! 0) =
     Some \<lparr>kind = Good, emoji = [0x1F48E], points = 5\<rparr> \<and>
   points expiredWindowSession = 0 \<and>
   points (onClickWindow 0 expiredWindowSession) = 5 \<and>
   active (grid (onClickWindow 0 expiredWindowSession) ! 0) = None"
  by (simp add: expiredWindowSession_def onClickWindow_def Let_def length_createInitialGrid
      createInitialGrid_nonempty windowDelta_def themedPoints_def theme_def js_rem_def)

text \<open>
  Claim C3. In an active game (game view, not over), clicking a window whose occupant is a
  bomb sets \<open>gameOver\<close>, leaves the score as it is and clears that window, and only that
  one. The grid's ids are in index order, as they are from \<open>createInitialGrid\<close> on.
\<close>

theorem bomb_click_ends_game:
  assumes "view s = Game" and "\<not> gameOver s" and "idsInOrder (grid s)"
    and "i < length (grid s)" and "active (grid s ! i) = Some item" and "kind item = Bomb"
  shows "gameOver (onClickWindow i s) = True \<and>
         points (onClickWindow i s) = points s \<and>
         active (grid (onClickWindow i s) ! i) = None \<and>
         grid (onClickWindow i s) =
           (grid s)[i := (grid s ! i)\<lparr>active := None, WindowCell.expiresAt := 0\<rparr>]"
proof -
  have g: "grid (onClickWindow i s) =
        map (\<lambda>c. if id' c = i then c\<lparr>active := None, WindowCell.expiresAt := 0\<rparr> else c)
          (grid s)"
    and o: "gameOver (onClickWindow i s) = True"
    and p: "points (onClickWindow i s) = points s"
    using assms by (simp_all add: onClickWindow_def Let_def)
  have "grid (onClickWindow i s) =
      (grid s)[i := (grid s ! i)\<lparr>active := None, WindowCell.expiresAt := 0\<rparr>]"
    unfolding g using assms(3,4) by (rule idsInOrder_clear_by_id)
  with o p assms(4) show ?thesis by simp
qed

theorem bomb_click_ends_game_witness:
  "view busySession = Game \<and> \<not> gameOver busySession \<and> idsInOrder (grid busySession) \<and>
   (1::nat) < length (grid busySession) \<and>
   active (grid busySession ! 1) = Some \<lparr>kind = Bomb, emoji = [0x1F4A3], points = 0\<rparr> \<and>
   gameOver (onClickWindow 1 busySession) = True \<and>
   points (onClickWindow 1 busySession) = 53 \<and>
   active (grid (onClickWindow 1 busySession) ! 1) = None"
  using bomb_click_ends_game [of busySession 1 "\<lparr>kind = Bomb, emoji = [0x1F4A3], points = 0\<rparr>"]
    idsInOrder_busyGrid
  by (simp add: busySession_def busyGrid_cells)

text \<open>
  Claim C6. A window click that goes through (active game, a window in range with a
  non-bomb occupant of base points \<open>p\<close>) adds \<open>+p\<close> to the score when the theme is day and
  \<open>-p\<close> when it is night, and clears the window.
\<close>

theorem window_click_scores_by_theme:
  assumes "view s = Game" and "\<not> gameOver s" and "i < length (grid s)"
    and "active (grid s ! i) = Some item" and "kind item \<noteq> Bomb"
  shows "points (onClickWindow i s) =
           points s + (if theme (elapsedSeconds s) = Day then Spawnable.points item
                       else - Spawnable.points item) \<and>
         active (grid (onClickWindow i s) ! i) = None \<and>
         gameOver (onClickWindow i s) = False"
  using assms
  by (cases "theme (elapsedSeconds s)")
     (simp_all add: onClickWindow_def windowDelta_def themedPoints_def Let_def)

theorem window_click_scores_by_theme_witness:
  "view busySession = Game \<and> \<not> gameOver busySession \<and>
   (0::nat) < length (grid busySession) \<and>
   active (grid busySession ! 0) = Some \<lparr>kind = Good, emoji = [0x1F340], points = 3\<rparr> \<and>
   theme (elapsedSeconds busySession) = Day \<and>
   points (onClickWindow 0 busySession) = 56 \<and>
   active (grid (onClickWindow 0 busySession) ! 0) = None \<and>
   theme 60 = Night \<and>
   points (onClickWindow 0 (busySession\<lparr>elapsedSeconds := 60\<rparr>)) = 50"
  using window_click_scores_by_theme
      [of busySession 0 "\<lparr>kind = Good, emoji = [0x1F340], points = 3\<rparr>"]
    window_click_scores_by_theme
      [of "busySession\<lparr>elapsedSeconds := 60\<rparr>" 0
          "\<lparr>kind = Good, emoji = [0x1F340], points = 3\<rparr>"]
  by (simp add: busySession_def busyGrid_cells theme_def js_rem_def)

subsection \<open>Door clicks\<close>

text \<open>
  Claim C7 says that a door click with the drop absent, or present but past its
  \<open>expiresAt\<close>, leaves the door slot, the score and \<open>gameOver\<close> unchanged. With an expired
  drop the door slot does change: the updater returns \<open>null\<close> for it. The gift of
  \<open>expiredDoorSession\<close> expired at 34000 ms; a click at 34020 ms removes it.
\<close>

theorem door_click_expired_counterexample:
  "doorDrop expiredDoorSession =
     Some \<lparr>DoorDrop.emoji = [0x1F381], points = 10, expiresAt = 34000\<rparr> \<and>
   doorDrop (onClickDoor 34020 expiredDoorSession) = None \<and>
   doorDrop (onClickDoor 34020 expiredDoorSession) \<noteq> doorDrop expiredDoorSession"
  by (simp add: expiredDoorSession_def onClickDoor_def)

lemma door_click_inactive_noop:
  "gameOver s \<or> view s \<noteq> Game \<Longrightarrow> onClickDoor now s = s"
  by (auto simp: onClickDoor_def)

text \<open>
  Claim C7, amended. With the drop absent a door click leaves the whole session unchanged.
  With a drop that is present but past its \<open>expiresAt\<close> a door click leaves the score
  unchanged and, in an active game, clears the door slot and changes nothing else. Outside
  an active game (game over, or another view) a door click changes nothing at all. A door
  click never changes \<open>gameOver\<close>.
\<close>

theorem door_click_without_live_drop:
  "(doorDrop s = None \<longrightarrow> onClickDoor now s = s) \<and>
   (doorDrop s = Some d \<and> DoorDrop.expiresAt d \<le> now \<longrightarrow>
      points (onClickDoor now s) = points s \<and>
      doorDrop (onClickDoor now s) = (if gameOver s \<or> view s \<noteq> Game then Some d else None)) \<and>
   gameOver (onClickDoor now s) = gameOver s \<and>
   (gameOver s \<or> view s \<noteq> Game \<longrightarrow> onClickDoor now s = s) \<and>
   (doorDrop s = Some d \<and> DoorDrop.expiresAt d \<le> now \<and> \<not> gameOver s \<and> view s = Game \<longrightarrow>
      onClickDoor now s = s\<lparr>doorDrop := None\<rparr>)"
proof -
  have inactive: "gameOver s \<or> view s \<noteq> Game \<longrightarrow> onClickDoor now s = s"
    using door_click_inactive_noop [of s now] by simp
  have rest: "(doorDrop s = None \<longrightarrow> onClickDoor now s = s) \<and>
   (doorDrop s = Some d \<and> DoorDrop.expiresAt d \<le> now \<longrightarrow>
      points (onClickDoor now s) = points s \<and>
      doorDrop (onClickDoor now s) = (if gameOver s \<or> view s \<noteq> Game then Some d else None)) \<and>
   gameOver (onClickDoor now s) = gameOver s"
    by (simp add: onClickDoor_def split: option.split)
  have cleared: "doorDrop s = Some d \<and> DoorDrop.expiresAt d \<le> now \<and> \<not> gameOver s \<and>
      view s = Game \<longrightarrow> onClickDoor now s = s\<lparr>doorDrop := None\<rparr>"
    by (simp add: onClickDoor_def)
  from rest inactive cleared show ?thesis by simp
qed

theorem door_click_without_live_drop_witness:
  "doorDrop expiredDoorSession =
     Some \<lparr>DoorDrop.emoji = [0x1F381], points = 10, expiresAt = 34000\<rparr> \<and>
   (34000::int) \<le> 34020 \<and>
   view expiredDoorSession = Game \<and> gameOver expiredDoorSession = False \<and>
   points (onClickDoor 34020 expiredDoorSession) = 50 \<and>
   doorDrop (onClickDoor 34020 expiredDoorSession) = None \<and>
   gameOver (onClickDoor 34020 expiredDoorSession) = False \<and>
   onClickDoor 34020 expiredDoorSession = expiredDoorSession\<lparr>doorDrop := None\<rparr> \<and>
   doorDrop (restartRun 0 expiredDoorSession) = None \<and>
   onClickDoor 4100 (restartRun 0 expiredDoorSession) = restartRun 0 expiredDoorSession \<and>
   gameOver (expiredDoorSession\<lparr>gameOver := True\<rparr>) = True \<and>
   onClickDoor 34020 (expiredDoorSession\<lparr>gameOver := True\<rparr>) =
     expiredDoorSession\<lparr>gameOver := True\<rparr> \<and>
   view (setView Instructions expiredDoorSession) = Instructions \<and>
   onClickDoor 34020 (setView Instructions expiredDoorSession) =
     setView Instructions expiredDoorSession"
  using door_click_without_live_drop [of expiredDoorSession 34020
      "\<lparr>DoorDrop.emoji = [0x1F381], points = 10, expiresAt = 34000\<rparr>"]
    door_click_without_live_drop [of "restartRun 0 expiredDoorSession" 4100]
    door_click_without_live_drop [of "expiredDoorSession\<lparr>gameOver := True\<rparr>" 34020]
    door_click_without_live_drop [of "setView Instructions expiredDoorSession" 34020]
  by (simp add: expiredDoorSession_def restartRun_def restart_def runKeyEffect_def setView_def)

subsection \<open>The milestone effect\<close>



text \<open>
  \<open>doorMilestonesAwarded\<close> is never negative: it starts at 0, \<open>restart\<close> sets it to 0, the
  milestone effect sets it to a positive count, and nothing else writes it.
\<close>

lemma milestoneEffect_awarded_nonneg:
  "0 \<le> doorMilestonesAwarded s \<Longrightarrow> 0 \<le> doorMilestonesAwarded (milestoneEffect now u1 u2 s)"
  by (simp add: milestoneEffect_def Let_def)

lemma restart_awarded: "doorMilestonesAwarded (restartRun now s) = 0"
  by (simp add: restartRun_def restart_def runKeyEffect_def)

lemma other_steps_keep_awarded:
  "doorMilestonesAwarded (onClickWindow i s) = doorMilestonesAwarded s"
  "doorMilestonesAwarded (onClickDoor now s) = doorMilestonesAwarded s"
  "doorMilestonesAwarded (pauseResumeEffect now s) = doorMilestonesAwarded s"
  "doorMilestonesAwarded (timerTick now s) = doorMilestonesAwarded s"
  by (simp_all add: onClickWindow_def onClickDoor_def pauseResumeEffect_def timerTick_def Let_def
      split: option.split)



subsection \<open>Pause and resume\<close>

lemma shiftGrid_0: "shiftGrid 0 g = g"
  by (simp add: shiftGrid_def map_idI)

lemma shiftDoor_0: "shiftDoor 0 d = d"
  by (simp add: shiftDoor_def split: option.split)

lemma pauseResumeEffect_resume:
  assumes "view s = Game" and "pausedAt s = Some p" and "0 \<le> d"
  shows "pauseResumeEffect (p + d) s =
     s\<lparr>pausedAt := None, startedAt := p + d - elapsedSeconds s * 1000,
       doorDrop := shiftDoor d (doorDrop s), grid := shiftGrid d (grid s)\<rparr>"
proof (cases "d = 0")
  case True
  with assms show ?thesis
    by (simp add: pauseResumeEffect_def Let_def shiftGrid_0 shiftDoor_0)
next
  case False
  with assms have "0 < d" by simp
  with assms show ?thesis
    by (simp add: pauseResumeEffect_def Let_def)
qed

lemma pauseResumeEffect_leave:
  assumes "view s \<noteq> Game" and "pausedAt s = None"
  shows "pauseResumeEffect p s = s\<lparr>pausedAt := Some p\<rparr>"
  using assms by (simp add: pauseResumeEffect_def)

lemma pauseResumeEffect_away:
  assumes "view s \<noteq> Game" and "pausedAt s = Some p"
  shows "pauseResumeEffect q s = s"
  using assms by (simp add: pauseResumeEffect_def)

lemma pauseResumeEffect_in_game_clears_mark:
  "view s = Game \<Longrightarrow> pausedAt (pauseResumeEffect now s) = None"
  by (simp add: pauseResumeEffect_def Let_def split: option.split)

lemma leave_then_return:
  assumes "v \<noteq> Game" and "pausedAt s = None" and "0 \<le> d"
  shows "pauseResumeEffect (p + d) (setView Game (pauseResumeEffect p (setView v s))) =
     s\<lparr>view := Game, pausedAt := None, startedAt := p + d - elapsedSeconds s * 1000,
       doorDrop := shiftDoor d (doorDrop s), grid := shiftGrid d (grid s)\<rparr>"
proof -
  have leave: "pauseResumeEffect p (setView v s) = s\<lparr>view := v, pausedAt := Some p\<rparr>"
    using assms(1,2) by (simp add: pauseResumeEffect_leave setView_def)
  have ingame: "view (setView Game (s\<lparr>view := v, pausedAt := Some p\<rparr>)) = Game"
    and mark: "pausedAt (setView Game (s\<lparr>view := v, pausedAt := Some p\<rparr>)) = Some p"
    by (simp_all add: setView_def)
  show ?thesis
    unfolding leave pauseResumeEffect_resume [OF ingame mark assms(3)]
    by (simp add: setView_def)
qed

text \<open>
  Claim C4. The player leaves the game view at \<open>p\<close> (to a view \<open>v\<close> other than the game,
  with no pause mark set, as in every session in the game view) and is back \<open>d\<close> ms later.
  Leaving records the pause mark \<open>p\<close> and changes nothing else, and the mark stays while
  the player is away. The resume step then adds exactly \<open>d\<close> to the \<open>expiresAt\<close> of every
  occupied window and of the door drop if there is one; occupants, ids, empty windows,
  score, \<open>gameOver\<close>, \<open>doorMilestonesAwarded\<close> and the elapsed seconds are as before the
  pause; the pause mark is cleared, and the start reference is set so that the timer, \<open>t\<close>
  ms after the resume, reads the elapsed seconds of the pause plus the whole seconds of
  \<open>t\<close>: no jump.
\<close>

theorem resume_shifts_expiries:
  assumes "v \<noteq> Game" and "pausedAt s = None" and "0 \<le> d"
  shows
   "pauseResumeEffect p (setView v s) = s\<lparr>view := v, pausedAt := Some p\<rparr> \<and>
    pauseResumeEffect q (pauseResumeEffect p (setView v s)) = pauseResumeEffect p (setView v s) \<and>
    length (grid (pauseResumeEffect (p + d) (setView Game (pauseResumeEffect p (setView v s))))) =
      length (grid s) \<and>
    (\<forall>i < length (grid s).
        active (grid (pauseResumeEffect (p + d)
                  (setView Game (pauseResumeEffect p (setView v s)))) ! i) =
          active (grid s ! i) \<and>
        id' (grid (pauseResumeEffect (p + d)
                  (setView Game (pauseResumeEffect p (setView v s)))) ! i) =
          id' (grid s ! i) \<and>
        WindowCell.expiresAt (grid (pauseResumeEffect (p + d)
                  (setView Game (pauseResumeEffect p (setView v s)))) ! i) =
          (if active (grid s ! i) \<noteq> None then WindowCell.expiresAt (grid s ! i) + d
           else WindowCell.expiresAt (grid s ! i))) \<and>
    doorDrop (pauseResumeEffect (p + d) (setView Game (pauseResumeEffect p (setView v s)))) =
      (case doorDrop s of None \<Rightarrow> None
       | Some dr \<Rightarrow> Some (dr\<lparr>DoorDrop.expiresAt := DoorDrop.expiresAt dr + d\<rparr>)) \<and>
    points (pauseResumeEffect (p + d) (setView Game (pauseResumeEffect p (setView v s)))) =
      points s \<and>
    gameOver (pauseResumeEffect (p + d) (setView Game (pauseResumeEffect p (setView v s)))) =
      gameOver s \<and>
    doorMilestonesAwarded
        (pauseResumeEffect (p + d) (setView Game (pauseResumeEffect p (setView v s)))) =
      doorMilestonesAwarded s \<and>
    elapsedSeconds (pauseResumeEffect (p + d) (setView Game (pauseResumeEffect p (setView v s)))) =
      elapsedSeconds s \<and>
    runKey (pauseResumeEffect (p + d) (setView Game (pauseResumeEffect p (setView v s)))) =
      runKey s \<and>
    view (pauseResumeEffect (p + d) (setView Game (pauseResumeEffect p (setView v s)))) =
      Game \<and>
    pausedAt (pauseResumeEffect (p + d) (setView Game (pauseResumeEffect p (setView v s)))) =
      None \<and>
    startedAt (pauseResumeEffect (p + d) (setView Game (pauseResumeEffect p (setView v s)))) =
      p + d - elapsedSeconds s * 1000 \<and>
    elapsedSeconds (timerTick (p + d + t)
        (pauseResumeEffect (p + d) (setView Game (pauseResumeEffect p (setView v s))))) =
      elapsedSeconds s + t div 1000"
proof -
  have leave: "pauseResumeEffect p (setView v s) = s\<lparr>view := v, pausedAt := Some p\<rparr>"
    using assms(1,2) by (simp add: pauseResumeEffect_leave setView_def)
  have away: "pauseResumeEffect q (pauseResumeEffect p (setView v s)) =
      pauseResumeEffect p (setView v s)"
    unfolding leave using assms(1) by (simp add: pauseResumeEffect_away [of _ p])
  note r = leave_then_return [OF assms, of p]
  have tick: "(p + d + t - (p + d - elapsedSeconds s * 1000)) div 1000 =
      elapsedSeconds s + t div 1000"
    by simp
  show ?thesis
    unfolding r away
    using tick by (simp add: leave timerTick_def shiftGrid_def shiftDoor_def split: option.split)
qed

theorem resume_shifts_expiries_witness:
  "Instructions \<noteq> Game \<and> pausedAt busySession = None \<and> (0::int) \<le> 15000 \<and>
   pausedAt (pauseResumeEffect 8500 (setView Instructions busySession)) = Some 8500 \<and>
   grid (pauseResumeEffect 8500 (setView Instructions busySession)) = grid busySession \<and>
   pauseResumeEffect 9000 (pauseResumeEffect 8500 (setView Instructions busySession)) =
     pauseResumeEffect 8500 (setView Instructions busySession) \<and>
   map WindowCell.expiresAt (grid busySession) = [12000, 9000, 0, 0, 0, 0, 0, 0, 0, 0] \<and>
   map WindowCell.expiresAt (grid (pauseResumeEffect 23500
       (setView Game (pauseResumeEffect 8500 (setView Instructions busySession))))) =
     [27000, 24000, 0, 0, 0, 0, 0, 0, 0, 0] \<and>
   map active (grid (pauseResumeEffect 23500
       (setView Game (pauseResumeEffect 8500 (setView Instructions busySession))))) =
     map active (grid busySession) \<and>
   doorDrop (pauseResumeEffect 23500
       (setView Game (pauseResumeEffect 8500 (setView Instructions busySession)))) =
     Some \<lparr>DoorDrop.emoji = [0x1F511], points = 8, expiresAt = 28000\<rparr> \<and>
   points (pauseResumeEffect 23500
       (setView Game (pauseResumeEffect 8500 (setView Instructions busySession)))) = 53 \<and>
   startedAt (pauseResumeEffect 23500
       (setView Game (pauseResumeEffect 8500 (setView Instructions busySession)))) = 15500 \<and>
   elapsedSeconds (timerTick 23750 (pauseResumeEffect 23500
       (setView Game (pauseResumeEffect 8500 (setView Instructions busySession))))) = 8"
  using resume_shifts_expiries [of Instructions busySession 15000 8500 9000 250]
  by (simp add: busySession_def busyGrid_cells pauseResumeEffect_def Let_def setView_def
      shiftGrid_def shiftDoor_def timerTick_def)

subsection \<open>The spawn tick\<close>

text \<open>
  Claim C5. One spawn tick raises the number of occupied windows by at most 1, leaves every
  live window (occupant present, \<open>expiresAt\<close> in the future) exactly as it was, and returns
  the grid unchanged when no window is available. \<open>u1\<close> is a value of \<open>Math.random()\<close>.
\<close>

theorem spawn_tick_at_most_one:
  assumes "0 \<le> u1" and "u1 < 1"
  shows "occupied (spawn now u1 u2 u3 g) \<le> occupied g + 1 \<and>
         length (spawn now u1 u2 u3 g) = length g \<and>
         (\<forall>i < length g.
            active (g ! i) \<noteq> None \<and> now < WindowCell.expiresAt (g ! i) \<longrightarrow>
              spawn now u1 u2 u3 g ! i = g ! i) \<and>
         (emptyIndices now g = [] \<longrightarrow> spawn now u1 u2 u3 g = g)"
proof (cases "emptyIndices now g = []")
  case True
  then show ?thesis by (simp add: spawn_no_empties)
next
  case False
  let ?k = "emptyIndices now g ! nat (randomInt u1 (int (length (emptyIndices now g))))"
  note upd = spawn_some_empty [OF False, of u1 u2 u3]
  have count: "occupied (spawn now u1 u2 u3 g) \<le> occupied g + 1"
    unfolding occupied_def upd by (rule filter_update_le)
  have len: "length (spawn now u1 u2 u3 g) = length g" by (simp add: upd)
  have target: "?k \<in> set (emptyIndices now g)"
    using assms False by (rule target_in_empties)
  have live: "spawn now u1 u2 u3 g ! i = g ! i"
    if "i < length g" and "active (g ! i) \<noteq> None" and "now < WindowCell.expiresAt (g ! i)" for i
  proof -
    have "i \<notin> set (emptyIndices now g)" using that by (simp add: emptyIndices_mem)
    with target have "?k \<noteq> i" by blast
    then show ?thesis by (simp add: upd)
  qed
  show ?thesis using count len live False by blast
qed

theorem spawn_tick_at_most_one_witness:
  "(0::rat) \<le> 0 \<and> (0::rat) < 1 \<and>
   occupied busyGrid = 2 \<and>
   occupied (spawn 10000 0 0 0 busyGrid) = 2 \<and>
   occupied (spawn 10000 0 0 0 busyGrid) \<le> occupied busyGrid + 1 \<and>
   active (busyGrid ! 0) \<noteq> None \<and> 10000 < WindowCell.expiresAt (busyGrid ! 0) \<and>
   spawn 10000 0 0 0 busyGrid ! 0 = busyGrid ! 0"
  using spawn_tick_at_most_one [of 0 10000 0 0 busyGrid]
  by (simp add: spawn_busyGrid occupied_def) (simp add: busyGrid_cells)

subsection \<open>Empty windows carry expiry 0\<close>

lemma emptySlotsReset_update:
  assumes "emptySlotsReset g" and "active c = None \<longrightarrow> WindowCell.expiresAt c = 0"
  shows "emptySlotsReset (g[k := c])"
proof -
  have sub: "set (g[k := c]) \<subseteq> insert c (set g)" by (rule set_update_subset_insert)
  have "active x = None \<longrightarrow> WindowCell.expiresAt x = 0" if "x \<in> set (g[k := c])" for x
  proof (cases "x = c")
    case True
    with assms(2) show ?thesis by simp
  next
    case False
    with that sub have "x \<in> set g" by auto
    with assms(1) show ?thesis by (simp add: emptySlotsReset_def list_all_iff)
  qed
  then show ?thesis by (simp add: emptySlotsReset_def list_all_iff)
qed

lemma emptySlotsReset_map:
  assumes "emptySlotsReset g"
    and "\<And>c. active c = None \<longrightarrow> WindowCell.expiresAt c = 0 \<Longrightarrow>
             active (f c) = None \<longrightarrow> WindowCell.expiresAt (f c) = 0"
  shows "emptySlotsReset (map f g)"
proof -
  have "active (f c) = None \<longrightarrow> WindowCell.expiresAt (f c) = 0" if "c \<in> set g" for c
  proof (rule assms(2))
    from assms(1) that show "active c = None \<longrightarrow> WindowCell.expiresAt c = 0"
      by (simp add: emptySlotsReset_def list_all_iff)
  qed
  then show ?thesis by (simp add: emptySlotsReset_def list_all_iff)
qed

lemma emptySlotsReset_createInitialGrid: "emptySlotsReset createInitialGrid"
  by (simp add: emptySlotsReset_def createInitialGrid_def list_all_iff)

lemma emptySlotsReset_spawn:
  assumes "emptySlotsReset g"
  shows "emptySlotsReset (spawn now u1 u2 u3 g)"
proof (cases "emptyIndices now g = []")
  case True
  with assms show ?thesis by (simp add: spawn_no_empties)
next
  case False
  show ?thesis
    unfolding spawn_some_empty [OF False] using assms by (rule emptySlotsReset_update) simp
qed

lemma emptySlotsReset_cleanupGrid:
  assumes "emptySlotsReset g"
  shows "emptySlotsReset (cleanupGrid now g)"
proof -
  have "emptySlotsReset (map (\<lambda>cell.
          if active cell \<noteq> None \<and> WindowCell.expiresAt cell \<le> now
          then cell\<lparr>active := None, WindowCell.expiresAt := 0\<rparr> else cell) g)"
    using assms by (rule emptySlotsReset_map) simp
  with assms show ?thesis by (simp add: cleanupGrid_def Let_def)
qed

lemma emptySlotsReset_shiftGrid:
  assumes "emptySlotsReset g"
  shows "emptySlotsReset (shiftGrid d g)"
  unfolding shiftGrid_def using assms by (rule emptySlotsReset_map) auto

lemma emptySlotsReset_onClickWindow:
  assumes "emptySlotsReset (grid s)"
  shows "emptySlotsReset (grid (onClickWindow i s))"
proof -
  have bomb: "emptySlotsReset (map (\<lambda>c. if id' c = i
                 then c\<lparr>active := None, WindowCell.expiresAt := 0\<rparr> else c) (grid s))"
    using assms by (rule emptySlotsReset_map) simp
  have scored: "emptySlotsReset
      ((grid s)[i := (grid s ! i)\<lparr>active := None, WindowCell.expiresAt := 0\<rparr>])"
    using assms by (rule emptySlotsReset_update) simp
  show ?thesis
    using assms bomb scored by (simp add: onClickWindow_def Let_def split: option.split)
qed

lemma emptySlotsReset_pauseResumeEffect:
  "emptySlotsReset (grid s) \<Longrightarrow> emptySlotsReset (grid (pauseResumeEffect now s))"
  by (simp add: pauseResumeEffect_def Let_def emptySlotsReset_shiftGrid split: option.split)

lemma emptySlotsReset_busyGrid: "emptySlotsReset busyGrid"
  by (simp add: emptySlotsReset_def busyGrid_cells)

text \<open>
  Claim C10. Every grid operation keeps the invariant that a window with no occupant has
  \<open>expiresAt = 0\<close>: the initial grid has it, and the spawn tick, the expiry sweep, the window
  click and the expiry shift of the resume step preserve it. A window with no occupant is
  among the indices the spawn tick counts as available.
\<close>

theorem empty_slots_keep_zero_expiry:
  "emptySlotsReset createInitialGrid \<and>
   (emptySlotsReset g \<longrightarrow> emptySlotsReset (spawn now u1 u2 u3 g)) \<and>
   (emptySlotsReset g \<longrightarrow> emptySlotsReset (cleanupGrid now g)) \<and>
   (emptySlotsReset (grid s) \<longrightarrow> emptySlotsReset (grid (onClickWindow i s))) \<and>
   (emptySlotsReset (grid s) \<longrightarrow> emptySlotsReset (grid (pauseResumeEffect now s))) \<and>
   (emptySlotsReset g \<and> j < length g \<and> active (g ! j) = None \<longrightarrow>
      WindowCell.expiresAt (g ! j) = 0 \<and> j \<in> set (emptyIndices now g))"
proof -
  have "WindowCell.expiresAt (g ! j) = 0 \<and> j \<in> set (emptyIndices now g)"
    if "emptySlotsReset g" and "j < length g" and "active (g ! j) = None"
  proof -
    from that(1,2) have "active (g ! j) = None \<longrightarrow> WindowCell.expiresAt (g ! j) = 0"
      unfolding emptySlotsReset_def list_all_length by blast
    with that(2,3) show ?thesis by (simp add: emptyIndices_mem)
  qed
  then show ?thesis
    using emptySlotsReset_createInitialGrid emptySlotsReset_spawn emptySlotsReset_cleanupGrid
      emptySlotsReset_onClickWindow emptySlotsReset_pauseResumeEffect
    by blast
qed

theorem empty_slots_keep_zero_expiry_witness:
  "emptySlotsReset busyGrid \<and> grid busySession = busyGrid \<and>
   emptySlotsReset (spawn 10000 0 0 0 busyGrid) \<and>
   emptySlotsReset (cleanupGrid 10000 busyGrid) \<and>
   active (cleanupGrid 10000 busyGrid ! 1) = None \<and>
   emptySlotsReset (grid (onClickWindow 0 busySession)) \<and>
   active (grid (onClickWindow 0 busySession) ! 0) = None \<and>
   emptySlotsReset (grid (pauseResumeEffect 10000 busySession)) \<and>
   (2::nat) < length busyGrid \<and> active (busyGrid ! 2) = None \<and>
   WindowCell.expiresAt (busyGrid ! 2) = 0 \<and> 2 \<in> set (emptyIndices 10000 busyGrid)"
  using empty_slots_keep_zero_expiry [of busyGrid 10000 0 0 0 busySession 0 2]
    emptySlotsReset_busyGrid
  by (simp add: busySession_def)
     (simp add: busyGrid_cells cleanupGrid_def onClickWindow_def Let_def)

end
